theory Spec2Isabelle
  imports Main "HOL-Library.Word" "HOL-Library.Sublist"
begin

section \<open>The SID tool: \<open>Tools/SidTool/UwpSharedObjectPathTool.cpp\<close>\<close>

text \<open>
  The program is one function, \<open>main\<close>: it declares five locals, and in eight
  statements writes a prompt to \<open>wcout\<close>, extracts \<open>containerName\<close> from \<open>wcin\<close> with
  \<open>operator>>\<close>, calls \<open>DeriveAppContainerSidFromAppContainerName\<close>,
  \<open>ConvertSidToStringSidA\<close> and \<open>FreeSid\<close> of the Windows API, and writes the label,
  the string at \<open>stringSid\<close> and a newline to \<open>wcout\<close>. It falls off the end of
  \<open>main\<close>.

  The embedding keeps that shape: a state with the locals and the two streams, one
  state transformer for each statement, and \<open>main\<close> as their sequence. The Windows API
  is not part of the repository, so it is a parameter (\<open>host\<close>): every theorem holds
  for every host unless it names its assumption on the host's replies.
\<close>

subsection \<open>Values\<close>

text \<open>\<open>wchar_t\<close> is a 16-bit code unit on Windows; \<open>char\<close> is HOL's 8-bit \<open>char\<close>.
  Pointers are addresses. \<open>HRESULT\<close> and \<open>BOOL\<close> are 32-bit integers.\<close>

type_synonym wchar_t = "16 word"
type_synonym wstring = "wchar_t list"
type_synonym PSID = nat
type_synonym LPSTR = nat
type_synonym HRESULT = "32 word"
type_synonym BOOL = "32 word"

text \<open>The wide literal \<open>L"..."\<close> of plain characters, and the widening that
  \<open>operator<<(wostream&, const char*)\<close> applies to each narrow character.\<close>

definition widen :: "char \<Rightarrow> wchar_t" where
  "widen c = of_char c"

definition wide :: "string \<Rightarrow> wstring" where
  "wide s = map widen s"

text \<open>White space of the classic "C" locale, the locale of \<open>wcin\<close> here (the program
  imbues none): space, and the control characters from horizontal tab to carriage return.\<close>

definition iswspace :: "wchar_t \<Rightarrow> bool" where
  "iswspace c = (c = 0x20 \<or> (0x09 \<le> c \<and> c \<le> 0x0D))"

text \<open>\<open>SUCCEEDED(hr)\<close> is \<open>hr >= 0\<close> on the signed reading; a \<open>BOOL\<close> reports success
  when it is not zero. The program uses neither: they state what "fails" means.\<close>

definition SUCCEEDED :: "HRESULT \<Rightarrow> bool" where
  "SUCCEEDED hr = (0 \<le> sint hr)"

definition S_OK :: HRESULT where
  "S_OK = 0"

definition E_INVALIDARG :: HRESULT where
  "E_INVALIDARG = 0x80070057"

definition TRUE :: BOOL where
  "TRUE = 1"

definition FALSE :: BOOL where
  "FALSE = 0"

subsection \<open>The host\<close>

text \<open>
  A call into the host either returns or faults (an access violation ends the process):
  \<open>None\<close> is the fault. A call with an out-parameter returns its status and what it
  stored through the out-parameter, \<open>None\<close> when it stored nothing and left the
  caller's variable as it was. \<open>c_str\<close> is the memory that \<open>wcout << stringSid\<close>
  reads: the characters before the terminating NUL at an address, \<open>None\<close> when the
  address cannot be read.
\<close>

record host =
  DeriveAppContainerSidFromAppContainerName :: "wstring \<Rightarrow> (HRESULT \<times> PSID option) option"
  ConvertSidToStringSidA :: "PSID \<Rightarrow> (BOOL \<times> LPSTR option) option"
  FreeSid :: "PSID \<Rightarrow> unit option"
  c_str :: "LPSTR \<Rightarrow> string option"

subsection \<open>The state of a run\<close>

text \<open>What a run does to the outside, in order. \<open>LocalFreeCall\<close> is the release that
  the API documents for the buffer of \<open>ConvertSidToStringSidA\<close>.\<close>

datatype event =
    WcoutWrite wstring
  | WcinRead wstring
  | DeriveCall wstring
  | ConvertCall PSID
  | FreeSidCall PSID
  | LocalFreeCall LPSTR

text \<open>The locals \<open>containerName\<close>, \<open>sid\<close> and \<open>stringSid\<close>, the unread input of
  \<open>wcin\<close>, the output written to \<open>wcout\<close>, and the events so far. The locals \<open>path\<close>
  and \<open>pathLength\<close> are declared and never used; they are left out.\<close>

record state =
  containerName :: wstring
  sid :: PSID
  stringSid :: LPSTR
  wcin :: wstring
  wcout :: wstring
  trace :: "event list"

text \<open>\<open>PSID sid; LPSTR stringSid;\<close> have no initialiser: their first values are
  whatever the stack holds.\<close>

record indeterminate =
  sid_init :: PSID
  stringSid_init :: LPSTR

datatype step = Next state | Fault state

datatype outcome = Exited int | Crashed

type_synonym stmt = "state \<Rightarrow> step"

subsection \<open>The statements\<close>

definition record_event :: "event \<Rightarrow> state \<Rightarrow> state" where
  "record_event e s = s\<lparr>trace := trace s @ [e]\<rparr>"

text \<open>\<open>wcout << L"..."\<close>\<close>

definition wcout_put :: "wstring \<Rightarrow> stmt" where
  "wcout_put ws s = Next (record_event (WcoutWrite ws) (s\<lparr>wcout := wcout s @ ws\<rparr>))"

text \<open>
  \<open>operator>>(wistream&, wstring&)\<close> on the string \<open>str\<close> and the unread input: it
  skips leading white space; when nothing is left the extraction fails and \<open>str\<close>
  is unchanged; otherwise \<open>str\<close> becomes the characters up to the next white space (or
  the end of the input), and that white space stays unread. The result is the string
  and the input that remains.
\<close>

definition wistream_extract :: "wstring \<Rightarrow> wstring \<Rightarrow> wstring \<times> wstring" where
  "wistream_extract str inp =
     (let rest = dropWhile iswspace inp in
      if rest = [] then (str, [])
      else (takeWhile (Not \<circ> iswspace) rest, dropWhile (Not \<circ> iswspace) rest))"

text \<open>\<open>wcin >> containerName\<close>\<close>

definition wcin_get_containerName :: stmt where
  "wcin_get_containerName s =
     (case wistream_extract (containerName s) (wcin s) of
        (str, rest) \<Rightarrow> Next (record_event (WcinRead str) (s\<lparr>containerName := str, wcin := rest\<rparr>)))"

text \<open>\<open>DeriveAppContainerSidFromAppContainerName(containerName.c_str(), &sid)\<close>: the
  returned \<open>HRESULT\<close> is dropped.\<close>

definition call_Derive :: "host \<Rightarrow> stmt" where
  "call_Derive h s =
     (let s' = record_event (DeriveCall (containerName s)) s in
      case DeriveAppContainerSidFromAppContainerName h (containerName s) of
        None \<Rightarrow> Fault s'
      | Some (hr, None) \<Rightarrow> Next s'
      | Some (hr, Some p) \<Rightarrow> Next (s'\<lparr>sid := p\<rparr>))"

text \<open>\<open>ConvertSidToStringSidA(sid, &stringSid)\<close>: the returned \<open>BOOL\<close> is dropped.\<close>

definition call_Convert :: "host \<Rightarrow> stmt" where
  "call_Convert h s =
     (let s' = record_event (ConvertCall (sid s)) s in
      case ConvertSidToStringSidA h (sid s) of
        None \<Rightarrow> Fault s'
      | Some (b, None) \<Rightarrow> Next s'
      | Some (b, Some q) \<Rightarrow> Next (s'\<lparr>stringSid := q\<rparr>))"

text \<open>\<open>FreeSid(sid)\<close>\<close>

definition call_FreeSid :: "host \<Rightarrow> stmt" where
  "call_FreeSid h s =
     (let s' = record_event (FreeSidCall (sid s)) s in
      case FreeSid h (sid s) of
        None \<Rightarrow> Fault s'
      | Some u \<Rightarrow> Next s')"

text \<open>\<open>wcout << stringSid\<close>, a \<open>char*\<close> on a wide stream: each character up to the
  NUL is widened and written.\<close>

definition wcout_put_narrow :: "host \<Rightarrow> stmt" where
  "wcout_put_narrow h s =
     (case c_str h (stringSid s) of
        None \<Rightarrow> Fault s
      | Some t \<Rightarrow> wcout_put (wide t) s)"

subsection \<open>\<open>main\<close>\<close>

definition prompt :: wstring where
  "prompt = wide (''You can find SID for your UWP app in the Partner Center. '' @
     ''If it is not yet published or you are going to use MSIX for deployment from website, '' @
     ''FTP or shared folder, please enter your app container name. '' @
     ''For UWP apps it is the same string as PFN (Package Family Name):'' @
     [CHR 0x0A, CHR 0x0A])"

definition label :: wstring where
  "label = wide ''SID: ''"

definition newline :: wstring where
  "newline = wide [CHR 0x0A]"

text \<open>The statements run in order; a fault ends the run. Falling off the end of
  \<open>main\<close> returns 0.\<close>

fun exec :: "stmt list \<Rightarrow> state \<Rightarrow> outcome \<times> state" where
  "exec [] s = (Exited 0, s)"
| "exec (c # cs) s = (case c s of Next s' \<Rightarrow> exec cs s' | Fault s' \<Rightarrow> (Crashed, s'))"

text \<open>\<open>wstring containerName;\<close> is default-constructed, so empty.\<close>

definition entry :: "indeterminate \<Rightarrow> wstring \<Rightarrow> state" where
  "entry g inp = \<lparr>containerName = [], sid = sid_init g, stringSid = stringSid_init g,
     wcin = inp, wcout = [], trace = []\<rparr>"

definition main_body :: "host \<Rightarrow> stmt list" where
  "main_body h =
     [wcout_put prompt,
      wcin_get_containerName,
      call_Derive h,
      call_Convert h,
      call_FreeSid h,
      wcout_put label,
      wcout_put_narrow h,
      wcout_put newline]"

definition main :: "host \<Rightarrow> indeterminate \<Rightarrow> wstring \<Rightarrow> outcome \<times> state" where
  "main h g inp = exec (main_body h) (entry g inp)"

subsection \<open>Resources handed over by the host\<close>

text \<open>
  The API documents who owns what: the SID that a successful
  \<open>DeriveAppContainerSidFromAppContainerName\<close> stores is the caller's, to be given
  back with \<open>FreeSid\<close>; the buffer that a successful \<open>ConvertSidToStringSidA\<close>
  stores is the caller's, to be given back with \<open>LocalFree\<close>. \<open>outstanding\<close>
  replays the events of a run against the replies of the host and returns what the
  program still holds at the end, the way an instrumented host would count.
\<close>

datatype resource = SidBlock PSID | StringBuffer LPSTR

fun account :: "host \<Rightarrow> resource list \<Rightarrow> event \<Rightarrow> resource list" where
  "account h held (DeriveCall n) =
     (case DeriveAppContainerSidFromAppContainerName h n of
        Some (hr, Some p) \<Rightarrow> if SUCCEEDED hr then SidBlock p # held else held
      | _ \<Rightarrow> held)"
| "account h held (ConvertCall p) =
     (case ConvertSidToStringSidA h p of
        Some (b, Some q) \<Rightarrow> if b \<noteq> 0 then StringBuffer q # held else held
      | _ \<Rightarrow> held)"
| "account h held (FreeSidCall p) = remove1 (SidBlock p) held"
| "account h held (LocalFreeCall q) = remove1 (StringBuffer q) held"
| "account h held (WcoutWrite ws) = held"
| "account h held (WcinRead ws) = held"

definition outstanding :: "host \<Rightarrow> event list \<Rightarrow> resource list" where
  "outstanding h tr = foldl (account h) [] tr"

text \<open>The characters that an event puts on \<open>wcout\<close>: those of a write, none for
  any other event.\<close>

fun written :: "event \<Rightarrow> wstring" where
  "written (WcoutWrite ws) = ws"
| "written (WcinRead ws) = []"
| "written (DeriveCall n) = []"
| "written (ConvertCall p) = []"
| "written (FreeSidCall p) = []"
| "written (LocalFreeCall q) = []"

text \<open>The host \<open>h\<close> with every status replaced: the derivation always returns \<open>hr\<close> and
  the conversion always returns \<open>b\<close>, while faults and stored results stay as they are.\<close>

definition override_status :: "HRESULT \<Rightarrow> BOOL \<Rightarrow> host \<Rightarrow> host" where
  "override_status hr b h =
     h\<lparr>DeriveAppContainerSidFromAppContainerName :=
          (\<lambda>n. map_option (\<lambda>(r, w). (hr, w)) (DeriveAppContainerSidFromAppContainerName h n)),
       ConvertSidToStringSidA :=
          (\<lambda>p. map_option (\<lambda>(r, w). (b, w)) (ConvertSidToStringSidA h p))\<rparr>"

subsection \<open>A stub host and concrete inputs\<close>

text \<open>
  A fixed host for the concrete runs below. It knows one package family name, for which
  it stores a SID at address 4096 and, for that SID, the text \<open>S-1-15-2-1\<close> at
  address 8192. Every other name is rejected with \<open>E_INVALIDARG\<close> and every other
  SID with \<open>FALSE\<close>, and then nothing is stored. \<open>FreeSid\<close> always returns. Two more
  addresses, 12288 and 16384, hold readable bytes that are no SID text.
\<close>

definition contoso :: wstring where
  "contoso = wide ''Contoso.DemoApp_8wekyb3d8bbwe''"

definition stub_host :: host where
  "stub_host = \<lparr>DeriveAppContainerSidFromAppContainerName =
       (\<lambda>n. if n = contoso then Some (S_OK, Some 4096) else Some (E_INVALIDARG, None)),
     ConvertSidToStringSidA =
       (\<lambda>p. if p = 4096 then Some (TRUE, Some 8192) else Some (FALSE, None)),
     FreeSid = (\<lambda>p. Some ()),
     c_str = (\<lambda>q. if q = 8192 then Some ''S-1-15-2-1'' else if q = 12288 then Some ''junk''
       else if q = 16384 then Some ''else'' else None)\<rparr>"

text \<open>The same host with a conversion that fails on every SID and stores nothing.\<close>

definition failing_conversion_host :: host where
  "failing_conversion_host =
     stub_host\<lparr>ConvertSidToStringSidA := (\<lambda>p. Some (FALSE, None))\<rparr>"

text \<open>Two possible contents of the stack at entry.\<close>

definition stack_junk :: indeterminate where
  "stack_junk = \<lparr>sid_init = 7, stringSid_init = 12288\<rparr>"

definition other_junk :: indeterminate where
  "other_junk = \<lparr>sid_init = 7, stringSid_init = 16384\<rparr>"

definition bad_name :: wstring where
  "bad_name = wide ''bad!name''"

definition unknown_app :: wstring where
  "unknown_app = wide ''Unknown.App_1234567890abc''"

section \<open>Facts about the statements\<close>

lemmas main_defs = main_def main_body_def entry_def wcout_put_def wcin_get_containerName_def
  call_Derive_def call_Convert_def call_FreeSid_def wcout_put_narrow_def record_event_def Let_def

subsection \<open>Extraction of a word\<close>

lemma all_space: "\<forall>c\<in>set xs. P c \<Longrightarrow> dropWhile P xs = []"
  by simp

lemma extract_name:
  "fst (wistream_extract [] inp) = takeWhile (Not \<circ> iswspace) (dropWhile iswspace inp)"
  by (simp add: wistream_extract_def Let_def all_space)

lemma extract_rest:
  "snd (wistream_extract [] inp) = dropWhile (Not \<circ> iswspace) (dropWhile iswspace inp)"
  by (simp add: wistream_extract_def Let_def all_space)

lemma extract_word:
  assumes "\<forall>c\<in>set pre. iswspace c" and "\<forall>c\<in>set w. \<not> iswspace c"
    and "post = [] \<or> iswspace (hd post)" and "w \<noteq> []"
  shows "wistream_extract str (pre @ w @ post) = (w, post)"
proof -
  have d: "dropWhile iswspace (pre @ w @ post) = w @ post"
    using assms(1,2,4) by (cases w) simp_all
  have t: "takeWhile (Not \<circ> iswspace) (w @ post) = w"
    using assms(2,3) by (cases post) simp_all
  have r: "dropWhile (Not \<circ> iswspace) (w @ post) = post"
    using assms(2,3) by (cases post) simp_all
  show ?thesis
    using assms(4) by (simp add: wistream_extract_def Let_def d t r)
qed

lemma word_no_space: "\<forall>c\<in>set (fst (wistream_extract [] inp)). \<not> iswspace c"
  by (auto simp: extract_name dest: set_takeWhileD)

subsection \<open>Widening\<close>






subsection \<open>The five ways a run can end\<close>

text \<open>A run ends in the fault of the derivation call, of the conversion call, of
  \<open>FreeSid\<close> or of the read of the string at \<open>stringSid\<close>, or it completes. In each
  case the final state is known in full.\<close>

lemma main_cases [consumes 1, case_names derive_fault convert_fault free_fault read_fault complete]:
  assumes "main h g inp = (out, s)"
  obtains
    (derive_fault) n r where "wistream_extract [] inp = (n, r)"
      "DeriveAppContainerSidFromAppContainerName h n = None" "out = Crashed"
      "s = \<lparr>containerName = n, sid = sid_init g, stringSid = stringSid_init g, wcin = r,
             wcout = prompt, trace = [WcoutWrite prompt, WcinRead n, DeriveCall n]\<rparr>"
  | (convert_fault) n r hr w p where "wistream_extract [] inp = (n, r)"
      "DeriveAppContainerSidFromAppContainerName h n = Some (hr, w)"
      "p = (case w of None \<Rightarrow> sid_init g | Some p' \<Rightarrow> p')"
      "ConvertSidToStringSidA h p = None" "out = Crashed"
      "s = \<lparr>containerName = n, sid = p, stringSid = stringSid_init g, wcin = r,
             wcout = prompt,
             trace = [WcoutWrite prompt, WcinRead n, DeriveCall n, ConvertCall p]\<rparr>"
  | (free_fault) n r hr w p b w' q where "wistream_extract [] inp = (n, r)"
      "DeriveAppContainerSidFromAppContainerName h n = Some (hr, w)"
      "p = (case w of None \<Rightarrow> sid_init g | Some p' \<Rightarrow> p')"
      "ConvertSidToStringSidA h p = Some (b, w')"
      "q = (case w' of None \<Rightarrow> stringSid_init g | Some q' \<Rightarrow> q')"
      "FreeSid h p = None" "out = Crashed"
      "s = \<lparr>containerName = n, sid = p, stringSid = q, wcin = r,
             wcout = prompt,
             trace = [WcoutWrite prompt, WcinRead n, DeriveCall n, ConvertCall p,
               FreeSidCall p]\<rparr>"
  | (read_fault) n r hr w p b w' q where "wistream_extract [] inp = (n, r)"
      "DeriveAppContainerSidFromAppContainerName h n = Some (hr, w)"
      "p = (case w of None \<Rightarrow> sid_init g | Some p' \<Rightarrow> p')"
      "ConvertSidToStringSidA h p = Some (b, w')"
      "q = (case w' of None \<Rightarrow> stringSid_init g | Some q' \<Rightarrow> q')"
      "FreeSid h p = Some ()" "c_str h q = None" "out = Crashed"
      "s = \<lparr>containerName = n, sid = p, stringSid = q, wcin = r,
             wcout = prompt @ label,
             trace = [WcoutWrite prompt, WcinRead n, DeriveCall n, ConvertCall p,
               FreeSidCall p, WcoutWrite label]\<rparr>"
  | (complete) n r hr w p b w' q t where "wistream_extract [] inp = (n, r)"
      "DeriveAppContainerSidFromAppContainerName h n = Some (hr, w)"
      "p = (case w of None \<Rightarrow> sid_init g | Some p' \<Rightarrow> p')"
      "ConvertSidToStringSidA h p = Some (b, w')"
      "q = (case w' of None \<Rightarrow> stringSid_init g | Some q' \<Rightarrow> q')"
      "FreeSid h p = Some ()" "c_str h q = Some t" "out = Exited 0"
      "s = \<lparr>containerName = n, sid = p, stringSid = q, wcin = r,
             wcout = prompt @ label @ wide t @ newline,
             trace = [WcoutWrite prompt, WcinRead n, DeriveCall n, ConvertCall p,
               FreeSidCall p, WcoutWrite label, WcoutWrite (wide t), WcoutWrite newline]\<rparr>"
  using assms
  by (auto simp: main_defs split: option.splits prod.splits)

lemma override_same: "main (override_status hr b h) g inp = main h g inp"
  by (auto simp: main_defs override_status_def split: option.splits prod.splits)


subsection \<open>The run of an accepted name\<close>

lemma accepted_run:
  assumes "main h g inp = (out, s)"
    and "DeriveAppContainerSidFromAppContainerName h (containerName s) = Some (hr, Some p)"
    and "ConvertSidToStringSidA h p = Some (b, Some q)"
  shows "(out, wcout s, trace s) =
    (let pre = [WcoutWrite prompt, WcinRead (containerName s), DeriveCall (containerName s),
                ConvertCall p, FreeSidCall p] in
     case FreeSid h p of
       None \<Rightarrow> (Crashed, prompt, pre)
     | Some u \<Rightarrow>
        (case c_str h q of
           None \<Rightarrow> (Crashed, prompt @ label, pre @ [WcoutWrite label])
         | Some t \<Rightarrow> (Exited 0, prompt @ label @ wide t @ newline,
             pre @ [WcoutWrite label, WcoutWrite (wide t), WcoutWrite newline])))"
  using assms
  by (auto simp: main_defs split: option.splits prod.splits)

subsection \<open>The stub host on the concrete inputs\<close>

lemma status_facts: "SUCCEEDED S_OK" "\<not> SUCCEEDED E_INVALIDARG" "TRUE \<noteq> 0" "FALSE = 0"
  by (simp_all add: SUCCEEDED_def S_OK_def E_INVALIDARG_def TRUE_def FALSE_def)

lemma stack_junk_sid: "sid_init stack_junk = 7"
  by (simp add: stack_junk_def)

lemma newline_space: "newline = [] \<or> iswspace (hd newline)"
  by (simp add: newline_def wide_def widen_def iswspace_def)

lemma contoso_facts: "(\<forall>c\<in>set contoso. \<not> iswspace c) \<and> contoso \<noteq> [] \<and> [] \<noteq> contoso"
  by (simp add: contoso_def wide_def widen_def iswspace_def)

lemma bad_name_facts:
  "(\<forall>c\<in>set bad_name. \<not> iswspace c) \<and> bad_name \<noteq> [] \<and> bad_name \<noteq> contoso"
  by (simp add: bad_name_def contoso_def wide_def widen_def iswspace_def)

lemma unknown_app_facts:
  "(\<forall>c\<in>set unknown_app. \<not> iswspace c) \<and> unknown_app \<noteq> [] \<and> unknown_app \<noteq> contoso"
  by (simp add: unknown_app_def contoso_def wide_def widen_def iswspace_def)

lemma my_facts:
  "(\<forall>c\<in>set (wide ''my''). \<not> iswspace c) \<and> wide ''my'' \<noteq> [] \<and>
   iswspace (hd (wide '' app'' @ newline)) \<and> wide ''my'' \<noteq> contoso \<and>
   wide ''my'' \<noteq> wide ''my app''"
  by (simp add: contoso_def wide_def widen_def iswspace_def)

lemma stub_host_replies:
  "DeriveAppContainerSidFromAppContainerName stub_host contoso = Some (S_OK, Some 4096)"
  "DeriveAppContainerSidFromAppContainerName stub_host bad_name = Some (E_INVALIDARG, None)"
  "DeriveAppContainerSidFromAppContainerName stub_host unknown_app = Some (E_INVALIDARG, None)"
  "DeriveAppContainerSidFromAppContainerName stub_host (wide ''my'') = Some (E_INVALIDARG, None)"
  "DeriveAppContainerSidFromAppContainerName stub_host [] = Some (E_INVALIDARG, None)"
  "ConvertSidToStringSidA stub_host 4096 = Some (TRUE, Some 8192)"
  "ConvertSidToStringSidA stub_host 7 = Some (FALSE, None)"
  "FreeSid stub_host p = Some ()"
  "c_str stub_host 8192 = Some ''S-1-15-2-1''"
  "c_str stub_host 12288 = Some ''junk''"
  "c_str stub_host 16384 = Some ''else''"
  using bad_name_facts unknown_app_facts my_facts contoso_facts
  by (simp_all add: stub_host_def)

lemma extract_contoso: "wistream_extract [] (contoso @ newline) = (contoso, newline)"
  using extract_word [of "[]" contoso newline] contoso_facts newline_space by simp

lemma extract_bad_name: "wistream_extract [] (bad_name @ newline) = (bad_name, newline)"
  using extract_word [of "[]" bad_name newline] bad_name_facts newline_space by simp

lemma extract_unknown_app: "wistream_extract [] (unknown_app @ newline) = (unknown_app, newline)"
  using extract_word [of "[]" unknown_app newline] unknown_app_facts newline_space by simp

lemma extract_my_app:
  "wistream_extract [] (wide ''my app'' @ newline) = (wide ''my'', wide '' app'' @ newline)"
proof -
  have split: "wide ''my app'' = wide ''my'' @ wide '' app''"
    by (simp add: wide_def)
  show ?thesis
    unfolding split
    using extract_word [of "[]" "wide ''my''" "wide '' app'' @ newline"] my_facts by simp
qed

lemma extract_nothing: "wistream_extract [] [] = ([], [])"
  by (simp add: wistream_extract_def)

lemma run_contoso:
  "main stub_host stack_junk (contoso @ newline) =
     (Exited 0,
      \<lparr>containerName = contoso, sid = 4096, stringSid = 8192, wcin = newline,
       wcout = prompt @ label @ wide ''S-1-15-2-1'' @ newline,
       trace = [WcoutWrite prompt, WcinRead contoso, DeriveCall contoso, ConvertCall 4096,
         FreeSidCall 4096, WcoutWrite label, WcoutWrite (wide ''S-1-15-2-1''),
         WcoutWrite newline]\<rparr>)"
  by (simp add: main_defs extract_contoso stub_host_replies stack_junk_def)

lemma failing_conversion_host_replies:
  "DeriveAppContainerSidFromAppContainerName failing_conversion_host contoso =
     Some (S_OK, Some 4096)"
  "ConvertSidToStringSidA failing_conversion_host p = Some (FALSE, None)"
  "FreeSid failing_conversion_host p = Some ()"
  "c_str failing_conversion_host 12288 = Some ''junk''"
  by (simp_all add: failing_conversion_host_def stub_host_replies)

lemma run_contoso_failing_conversion:
  "main failing_conversion_host stack_junk (contoso @ newline) =
     (Exited 0,
      \<lparr>containerName = contoso, sid = 4096, stringSid = 12288, wcin = newline,
       wcout = prompt @ label @ wide ''junk'' @ newline,
       trace = [WcoutWrite prompt, WcinRead contoso, DeriveCall contoso, ConvertCall 4096,
         FreeSidCall 4096, WcoutWrite label, WcoutWrite (wide ''junk''),
         WcoutWrite newline]\<rparr>)"
  by (simp add: main_defs extract_contoso failing_conversion_host_replies stack_junk_def)

lemma run_contoso_other:
  "main stub_host other_junk (contoso @ newline) =
     (Exited 0,
      \<lparr>containerName = contoso, sid = 4096, stringSid = 8192, wcin = newline,
       wcout = prompt @ label @ wide ''S-1-15-2-1'' @ newline,
       trace = [WcoutWrite prompt, WcinRead contoso, DeriveCall contoso, ConvertCall 4096,
         FreeSidCall 4096, WcoutWrite label, WcoutWrite (wide ''S-1-15-2-1''),
         WcoutWrite newline]\<rparr>)"
  by (simp add: main_defs extract_contoso stub_host_replies other_junk_def)

lemma run_bad_name:
  "main stub_host stack_junk (bad_name @ newline) =
     (Exited 0,
      \<lparr>containerName = bad_name, sid = 7, stringSid = 12288, wcin = newline,
       wcout = prompt @ label @ wide ''junk'' @ newline,
       trace = [WcoutWrite prompt, WcinRead bad_name, DeriveCall bad_name, ConvertCall 7,
         FreeSidCall 7, WcoutWrite label, WcoutWrite (wide ''junk''), WcoutWrite newline]\<rparr>)"
  by (simp add: main_defs extract_bad_name stub_host_replies stack_junk_def)

lemma run_unknown_app:
  "main stub_host stack_junk (unknown_app @ newline) =
     (Exited 0,
      \<lparr>containerName = unknown_app, sid = 7, stringSid = 12288, wcin = newline,
       wcout = prompt @ label @ wide ''junk'' @ newline,
       trace = [WcoutWrite prompt, WcinRead unknown_app, DeriveCall unknown_app, ConvertCall 7,
         FreeSidCall 7, WcoutWrite label, WcoutWrite (wide ''junk''), WcoutWrite newline]\<rparr>)"
  by (simp add: main_defs extract_unknown_app stub_host_replies stack_junk_def)

lemma run_unknown_app_other:
  "main stub_host other_junk (unknown_app @ newline) =
     (Exited 0,
      \<lparr>containerName = unknown_app, sid = 7, stringSid = 16384, wcin = newline,
       wcout = prompt @ label @ wide ''else'' @ newline,
       trace = [WcoutWrite prompt, WcinRead unknown_app, DeriveCall unknown_app, ConvertCall 7,
         FreeSidCall 7, WcoutWrite label, WcoutWrite (wide ''else''), WcoutWrite newline]\<rparr>)"
  by (simp add: main_defs extract_unknown_app stub_host_replies other_junk_def)

lemma run_my_app:
  "main stub_host stack_junk (wide ''my app'' @ newline) =
     (Exited 0,
      \<lparr>containerName = wide ''my'', sid = 7, stringSid = 12288,
       wcin = wide '' app'' @ newline,
       wcout = prompt @ label @ wide ''junk'' @ newline,
       trace = [WcoutWrite prompt, WcinRead (wide ''my''), DeriveCall (wide ''my''),
         ConvertCall 7, FreeSidCall 7, WcoutWrite label, WcoutWrite (wide ''junk''),
         WcoutWrite newline]\<rparr>)"
  by (simp add: main_defs extract_my_app stub_host_replies stack_junk_def)

lemma run_nothing:
  "main stub_host stack_junk [] =
     (Exited 0,
      \<lparr>containerName = [], sid = 7, stringSid = 12288, wcin = [],
       wcout = prompt @ label @ wide ''junk'' @ newline,
       trace = [WcoutWrite prompt, WcinRead [], DeriveCall [], ConvertCall 7,
         FreeSidCall 7, WcoutWrite label, WcoutWrite (wide ''junk''), WcoutWrite newline]\<rparr>)"
  by (simp add: main_defs extract_nothing stub_host_replies stack_junk_def)

section \<open>The claims\<close>

subsection \<open>C2: the SID is released exactly once\<close>

text \<open>
  C2. For every input name and for every outcome of the host's calls (the textual
  conversion succeeding or failing), the SID that the derivation call handed over is
  released exactly once before the operation returns: no leak and no double release,
  on the success path and on every failure path.

  For every run, whatever the host replies:
  \<^item> the number of \<open>FreeSid\<close> calls on any value \<open>x\<close> is one when \<open>x\<close> is \<open>sid\<close>
    and the conversion call was made and returned, and zero otherwise; so nothing is
    released twice on any path;
  \<^item> \<open>sid\<close> is the SID that the derivation stored, and the value it had at entry when
    the derivation stored none;
  \<^item> when the conversion call returns, with any status, no SID is held at the end;
  \<^item> when the derivation stored \<open>p\<close> and the conversion returns, the one release is
    of \<open>p\<close>, right after the conversion and before anything else is written;
  \<^item> when the derivation stored nothing, no SID was acquired and none is held, and the
    one \<open>FreeSid\<close> call of the run is on the value that \<open>sid\<close> had at entry.
\<close>

theorem sid_released_exactly_once:
  assumes "main h g inp = (out, s)"
  shows "count_list (trace s) (FreeSidCall x) =
      (if x = sid s \<and> ConvertCall (sid s) \<in> set (trace s) \<and>
          ConvertSidToStringSidA h (sid s) \<noteq> None then 1 else 0) \<and>
    sid s = (case DeriveAppContainerSidFromAppContainerName h (containerName s) of
               Some (hr', Some p') \<Rightarrow> p' | _ \<Rightarrow> sid_init g) \<and>
    (ConvertSidToStringSidA h (sid s) \<noteq> None \<longrightarrow>
       SidBlock y \<notin> set (outstanding h (trace s))) \<and>
    (DeriveAppContainerSidFromAppContainerName h (containerName s) = Some (hr, Some p) \<and>
     ConvertSidToStringSidA h p = Some (b, w) \<longrightarrow>
       count_list (trace s) (FreeSidCall p) = 1 \<and>
       SidBlock p \<notin> set (outstanding h (trace s)) \<and>
       take 5 (trace s) = [WcoutWrite prompt, WcinRead (containerName s),
         DeriveCall (containerName s), ConvertCall p, FreeSidCall p]) \<and>
    (DeriveAppContainerSidFromAppContainerName h (containerName s) = Some (hr, None) \<and>
     ConvertSidToStringSidA h (sid_init g) = Some (b, w) \<longrightarrow>
       count_list (trace s) (FreeSidCall (sid_init g)) = 1 \<and>
       SidBlock y \<notin> set (outstanding h (trace s)) \<and>
       take 5 (trace s) = [WcoutWrite prompt, WcinRead (containerName s),
         DeriveCall (containerName s), ConvertCall (sid_init g), FreeSidCall (sid_init g)])"
  using assms
proof (cases rule: main_cases)
  case derive_fault
  then show ?thesis by (simp add: outstanding_def)
next
  case convert_fault
  then show ?thesis by (auto simp: outstanding_def split: option.splits)
next
  case free_fault
  then show ?thesis by (auto simp: outstanding_def split: option.splits if_splits)
next
  case read_fault
  then show ?thesis by (auto simp: outstanding_def split: option.splits if_splits)
next
  case complete
  then show ?thesis by (auto simp: outstanding_def split: option.splits if_splits)
qed

text \<open>The SID at 4096 is acquired and released once, both when the conversion
  succeeds (the stub host) and when it fails (the host with the failing conversion).
  On \<open>bad!name\<close> the derivation stores nothing: no SID is held, and the one \<open>FreeSid\<close>
  call is on the 7 that \<open>sid\<close> held at entry.\<close>

theorem sid_released_exactly_once_witness:
  "DeriveAppContainerSidFromAppContainerName stub_host contoso = Some (S_OK, Some 4096) \<and>
   ConvertSidToStringSidA stub_host 4096 = Some (TRUE, Some 8192) \<and>
   count_list (trace (snd (main stub_host stack_junk (contoso @ newline)))) (FreeSidCall 4096) = 1 \<and>
   SidBlock 4096 \<notin>
     set (outstanding stub_host (trace (snd (main stub_host stack_junk (contoso @ newline))))) \<and>
   DeriveAppContainerSidFromAppContainerName failing_conversion_host contoso =
     Some (S_OK, Some 4096) \<and>
   ConvertSidToStringSidA failing_conversion_host 4096 = Some (FALSE, None) \<and>
   count_list (trace (snd (main failing_conversion_host stack_junk (contoso @ newline))))
     (FreeSidCall 4096) = 1 \<and>
   SidBlock 4096 \<notin>
     set (outstanding failing_conversion_host
       (trace (snd (main failing_conversion_host stack_junk (contoso @ newline))))) \<and>
   DeriveAppContainerSidFromAppContainerName stub_host bad_name = Some (E_INVALIDARG, None) \<and>
   ConvertSidToStringSidA stub_host 7 = Some (FALSE, None) \<and>
   count_list (trace (snd (main stub_host stack_junk (bad_name @ newline)))) (FreeSidCall 7) = 1 \<and>
   outstanding stub_host (trace (snd (main stub_host stack_junk (bad_name @ newline)))) = []"
  using sid_released_exactly_once [where h = stub_host and g = stack_junk
      and inp = "contoso @ newline" and out = "Exited 0"
      and s = "snd (main stub_host stack_junk (contoso @ newline))"
      and x = 4096 and y = 4096 and hr = S_OK and p = 4096 and b = TRUE and w = "Some 8192"]
    sid_released_exactly_once [where h = failing_conversion_host and g = stack_junk
      and inp = "contoso @ newline" and out = "Exited 0"
      and s = "snd (main failing_conversion_host stack_junk (contoso @ newline))"
      and x = 4096 and y = 4096 and hr = S_OK and p = 4096 and b = FALSE and w = None]
    sid_released_exactly_once [where h = stub_host and g = stack_junk
      and inp = "bad_name @ newline" and out = "Exited 0"
      and s = "snd (main stub_host stack_junk (bad_name @ newline))"
      and x = 7 and y = 4096 and hr = E_INVALIDARG and p = 4096 and b = FALSE and w = None]
  by (simp add: run_contoso run_contoso_failing_conversion run_bad_name stub_host_replies
      failing_conversion_host_replies stack_junk_sid outstanding_def status_facts)

subsection \<open>C3: the order of the steps\<close>

text \<open>
  C3. For every execution, the program performs the steps of the resolver in this exact
  order: read the container name, derive the SID from the name through the host, convert
  the SID to its textual form, release the SID, and only then emit the text.

  For every run:
  \<^item> the events are an initial part of: prompt, read of the name, derivation call on
    that name, conversion call on \<open>sid\<close>, \<open>FreeSid\<close> on \<open>sid\<close>, label, text,
    newline; a run that does not fault has all eight, the text is the string at
    \<open>stringSid\<close>, and standard output holds the prompt, the label, that text and the
    newline;
  \<^item> the name is the word extracted from the input; \<open>sid\<close> is what the derivation
    stored for that name (its value at entry when the call stored nothing or faulted);
    \<open>stringSid\<close> is what the conversion stored for that \<open>sid\<close> (its value at entry
    when the call stored nothing or was not reached);
  \<^item> what standard output holds is what the write events of the run wrote, in order.
\<close>

theorem steps_in_order:
  assumes "main h g inp = (out, s)"
  shows "(\<exists>t. prefix (trace s)
       [WcoutWrite prompt, WcinRead (containerName s), DeriveCall (containerName s),
        ConvertCall (sid s), FreeSidCall (sid s),
        WcoutWrite label, WcoutWrite (wide t), WcoutWrite newline] \<and>
     (out \<noteq> Crashed \<longrightarrow> c_str h (stringSid s) = Some t \<and> trace s =
       [WcoutWrite prompt, WcinRead (containerName s), DeriveCall (containerName s),
        ConvertCall (sid s), FreeSidCall (sid s),
        WcoutWrite label, WcoutWrite (wide t), WcoutWrite newline] \<and>
       wcout s = prompt @ label @ wide t @ newline)) \<and>
    containerName s = fst (wistream_extract [] inp) \<and>
    sid s = (case DeriveAppContainerSidFromAppContainerName h (containerName s) of
               Some (hr, Some p) \<Rightarrow> p | _ \<Rightarrow> sid_init g) \<and>
    stringSid s =
      (if DeriveAppContainerSidFromAppContainerName h (containerName s) = None
       then stringSid_init g
       else case ConvertSidToStringSidA h (sid s) of
              Some (b, Some q) \<Rightarrow> q | _ \<Rightarrow> stringSid_init g) \<and>
    wcout s = concat (map written (trace s))"
  using assms
proof (cases rule: main_cases)
  case derive_fault
  then show ?thesis by simp
next
  case convert_fault
  then show ?thesis by (auto split: option.splits)
next
  case free_fault
  then show ?thesis by (auto split: option.splits)
next
  case read_fault
  then show ?thesis by (auto split: option.splits)
next
  case complete
  then show ?thesis by (auto split: option.splits)
qed

text \<open>The stub host on its known name: the run does not fault, has the eight events
  with the SID and the text that the host stored, and the text is on standard output.\<close>

theorem steps_in_order_witness:
  "fst (main stub_host stack_junk (contoso @ newline)) \<noteq> Crashed \<and>
   DeriveAppContainerSidFromAppContainerName stub_host contoso = Some (S_OK, Some 4096) \<and>
   ConvertSidToStringSidA stub_host 4096 = Some (TRUE, Some 8192) \<and>
   c_str stub_host 8192 = Some ''S-1-15-2-1'' \<and>
   sid (snd (main stub_host stack_junk (contoso @ newline))) = 4096 \<and>
   stringSid (snd (main stub_host stack_junk (contoso @ newline))) = 8192 \<and>
   trace (snd (main stub_host stack_junk (contoso @ newline))) =
       [WcoutWrite prompt, WcinRead contoso, DeriveCall contoso, ConvertCall 4096,
        FreeSidCall 4096, WcoutWrite label, WcoutWrite (wide ''S-1-15-2-1''),
        WcoutWrite newline] \<and>
   wcout (snd (main stub_host stack_junk (contoso @ newline))) =
     prompt @ label @ wide ''S-1-15-2-1'' @ newline \<and>
   wcout (snd (main stub_host stack_junk (contoso @ newline))) =
     concat (map written (trace (snd (main stub_host stack_junk (contoso @ newline)))))"
  using steps_in_order [where h = stub_host and g = stack_junk and inp = "contoso @ newline"
      and out = "Exited 0" and s = "snd (main stub_host stack_junk (contoso @ newline))"]
  by (simp add: run_contoso stub_host_replies)

subsection \<open>C9: the exit status is 0\<close>

text \<open>
  C9. Every execution that runs to completion exits with status 0, whether or not the
  derivation call or the conversion call reported failure: the program never inspects
  either call's return status.

  A run that exits does so with 0; and replacing the statuses that the host returns by
  any other pair changes nothing in the run (outcome, locals, streams, events).
\<close>

theorem exit_status_zero:
  "(main h g inp = (Exited c, s) \<longrightarrow> c = 0) \<and>
   main (override_status hr b h) g inp = main h g inp"
  by (auto simp: main_defs override_status_def split: option.splits prod.splits)

text \<open>The stub host rejects \<open>bad!name\<close> and then fails the conversion; the run
  completes with status 0, and is the same when both statuses report success.\<close>

theorem exit_status_zero_witness:
  "DeriveAppContainerSidFromAppContainerName stub_host bad_name = Some (E_INVALIDARG, None) \<and>
   \<not> SUCCEEDED E_INVALIDARG \<and>
   ConvertSidToStringSidA stub_host 7 = Some (FALSE, None) \<and>
   main stub_host stack_junk (bad_name @ newline) =
     (Exited 0, snd (main stub_host stack_junk (bad_name @ newline))) \<and>
   main (override_status S_OK TRUE stub_host) stack_junk (bad_name @ newline) =
     main stub_host stack_junk (bad_name @ newline)"
  using exit_status_zero [of stub_host stack_junk "bad_name @ newline" 0
      "snd (main stub_host stack_junk (bad_name @ newline))" S_OK TRUE]
  by (simp add: run_bad_name stub_host_replies status_facts)

subsection \<open>C10: the string buffer is never released\<close>

text \<open>
  C10. On every execution path, the string buffer allocated by
  \<open>ConvertSidToStringSidA\<close> is never released by the program: only the SID itself is
  freed, and no release of the string buffer occurs before the program exits.

  No run has a \<open>LocalFree\<close> event, for any buffer \<open>q\<close>; the only \<open>FreeSid\<close> is
  the one on \<open>sid\<close>; and a buffer that a successful conversion stored is still held
  at the end of the run.
\<close>

theorem string_buffer_never_released:
  assumes "main h g inp = (out, s)"
  shows "LocalFreeCall q \<notin> set (trace s) \<and>
    (FreeSidCall p \<in> set (trace s) \<longrightarrow> p = sid s) \<and>
    (ConvertCall (sid s) \<in> set (trace s) \<and>
     ConvertSidToStringSidA h (sid s) = Some (b, Some q) \<and> b \<noteq> 0 \<longrightarrow>
       StringBuffer q \<in> set (outstanding h (trace s)))"
  using assms
  by (auto simp: main_defs outstanding_def split: option.splits prod.splits)

text \<open>The stub host on its known name: the buffer at 8192 is stored by a successful
  conversion and is still held when the program exits.\<close>

theorem string_buffer_never_released_witness:
  "ConvertCall 4096 \<in> set (trace (snd (main stub_host stack_junk (contoso @ newline)))) \<and>
   ConvertSidToStringSidA stub_host 4096 = Some (TRUE, Some 8192) \<and> TRUE \<noteq> 0 \<and>
   fst (main stub_host stack_junk (contoso @ newline)) = Exited 0 \<and>
   LocalFreeCall 8192 \<notin> set (trace (snd (main stub_host stack_junk (contoso @ newline)))) \<and>
   StringBuffer 8192 \<in>
     set (outstanding stub_host (trace (snd (main stub_host stack_junk (contoso @ newline)))))"
  using string_buffer_never_released [of stub_host stack_junk "contoso @ newline" "Exited 0"
      "snd (main stub_host stack_junk (contoso @ newline))" 8192 4096 TRUE]
  by (simp add: run_contoso stub_host_replies status_facts)

subsection \<open>C1: failures are not reported\<close>

text \<open>
  C1 states that for every input name on which derivation or textual conversion fails,
  the program prints a diagnostic naming the failed step and exits with a non-zero
  status. It does not. The stub host rejects \<open>bad!name\<close> with \<open>E_INVALIDARG\<close> and
  stores nothing; the program goes on with the value that \<open>sid\<close> had at entry, prints
  the label and the bytes that \<open>stringSid\<close> had pointed to at entry, and exits with 0.
\<close>

theorem failure_not_reported_counterexample:
  "DeriveAppContainerSidFromAppContainerName stub_host bad_name = Some (E_INVALIDARG, None) \<and>
   \<not> SUCCEEDED E_INVALIDARG \<and>
   main stub_host stack_junk (bad_name @ newline) =
     (Exited 0,
      \<lparr>containerName = bad_name, sid = 7, stringSid = 12288, wcin = newline,
       wcout = prompt @ label @ wide ''junk'' @ newline,
       trace = [WcoutWrite prompt, WcinRead bad_name, DeriveCall bad_name, ConvertCall 7,
         FreeSidCall 7, WcoutWrite label, WcoutWrite (wide ''junk''), WcoutWrite newline]\<rparr>)"
  by (simp add: run_bad_name stub_host_replies status_facts)

text \<open>
  C1, as amended. For every input name on which the derivation returns a failing
  \<open>HRESULT\<close> or the conversion returns \<open>FALSE\<close>, the program does not report the
  failure. It inspects neither status: the run is the same when the host returns any
  other pair of statuses. It still makes the conversion call, and the \<open>FreeSid\<close> call
  when the conversion returns. It never exits with a non-zero status: a run ends with
  status 0 or in the fault of a call. It prints no diagnostic: every write is the
  prompt, the label, the string at \<open>stringSid\<close> or the newline, and standard output
  holds what these writes wrote; a run that completes has written exactly these four,
  and a run that faults has written the prompt, or the prompt and the label.
\<close>

theorem failure_ignored:
  assumes "main h g inp = (out, s)"
    and "(DeriveAppContainerSidFromAppContainerName h (containerName s) = Some (hr, w) \<and>
           \<not> SUCCEEDED hr) \<or>
         (ConvertCall (sid s) \<in> set (trace s) \<and>
           ConvertSidToStringSidA h (sid s) = Some (0, w'))"
  shows "main (override_status hr' b' h) g inp = (out, s) \<and>
    ConvertCall (sid s) \<in> set (trace s) \<and>
    (ConvertSidToStringSidA h (sid s) \<noteq> None \<longrightarrow> FreeSidCall (sid s) \<in> set (trace s)) \<and>
    (out = Exited 0 \<or> out = Crashed) \<and>
    (out = Exited 0 \<longrightarrow>
       (\<exists>t. c_str h (stringSid s) = Some t \<and> wcout s = prompt @ label @ wide t @ newline)) \<and>
    (out = Crashed \<longrightarrow> wcout s = prompt \<or> wcout s = prompt @ label) \<and>
    (WcoutWrite ws \<in> set (trace s) \<longrightarrow>
       ws = prompt \<or> ws = label \<or> ws = newline \<or>
       (\<exists>t. c_str h (stringSid s) = Some t \<and> ws = wide t)) \<and>
    wcout s = concat (map written (trace s))"
proof -
  have same: "main (override_status hr' b' h) g inp = (out, s)"
    using assms(1) by (simp add: override_same)
  from assms(1) have rest: "ConvertCall (sid s) \<in> set (trace s) \<and>
    (ConvertSidToStringSidA h (sid s) \<noteq> None \<longrightarrow> FreeSidCall (sid s) \<in> set (trace s)) \<and>
    (out = Exited 0 \<or> out = Crashed) \<and>
    (out = Exited 0 \<longrightarrow>
       (\<exists>t. c_str h (stringSid s) = Some t \<and> wcout s = prompt @ label @ wide t @ newline)) \<and>
    (out = Crashed \<longrightarrow> wcout s = prompt \<or> wcout s = prompt @ label) \<and>
    (WcoutWrite ws \<in> set (trace s) \<longrightarrow>
       ws = prompt \<or> ws = label \<or> ws = newline \<or>
       (\<exists>t. c_str h (stringSid s) = Some t \<and> ws = wide t)) \<and>
    wcout s = concat (map written (trace s))"
  proof (cases rule: main_cases)
    case derive_fault
    with assms(2) show ?thesis by simp
  next
    case convert_fault
    with assms(2) show ?thesis by auto
  next
    case free_fault
    then show ?thesis by auto
  next
    case read_fault
    then show ?thesis by auto
  next
    case complete
    then show ?thesis by auto
  qed
  from same rest show ?thesis by (rule conjI)
qed

text \<open>The stub host on \<open>bad!name\<close>: the derivation fails, both later calls are made on
  the value 7 that \<open>sid\<close> had at entry, the run is the same when both statuses report
  success, and standard output holds the prompt, the label, the bytes at the address
  that \<open>stringSid\<close> had at entry and the newline.\<close>

theorem failure_ignored_witness:
  "DeriveAppContainerSidFromAppContainerName stub_host bad_name = Some (E_INVALIDARG, None) \<and>
   \<not> SUCCEEDED E_INVALIDARG \<and>
   main (override_status S_OK TRUE stub_host) stack_junk (bad_name @ newline) =
     main stub_host stack_junk (bad_name @ newline) \<and>
   ConvertCall 7 \<in> set (trace (snd (main stub_host stack_junk (bad_name @ newline)))) \<and>
   FreeSidCall 7 \<in> set (trace (snd (main stub_host stack_junk (bad_name @ newline)))) \<and>
   fst (main stub_host stack_junk (bad_name @ newline)) = Exited 0 \<and>
   wcout (snd (main stub_host stack_junk (bad_name @ newline))) =
     prompt @ label @ wide ''junk'' @ newline"
  using failure_ignored [where h = stub_host and g = stack_junk and inp = "bad_name @ newline"
      and out = "Exited 0" and s = "snd (main stub_host stack_junk (bad_name @ newline))"
      and hr = E_INVALIDARG and w = None and w' = None and hr' = S_OK and b' = TRUE]
  by (simp add: run_bad_name stub_host_replies status_facts)

subsection \<open>C4: the result line\<close>




subsection \<open>C5: determinism\<close>

text \<open>
  C5 states that for every container name two runs on the same name yield the same
  text. For a name that the host rejects without storing a SID, what is printed is the
  string at the address that \<open>stringSid\<close> held at entry: two runs of the stub host on
  the same rejected name, with two contents of the stack, print two texts.
\<close>

theorem determinism_counterexample:
  "wcout (snd (main stub_host stack_junk (unknown_app @ newline))) =
     prompt @ label @ wide ''junk'' @ newline \<and>
   wcout (snd (main stub_host other_junk (unknown_app @ newline))) =
     prompt @ label @ wide ''else'' @ newline \<and>
   wcout (snd (main stub_host stack_junk (unknown_app @ newline))) \<noteq>
   wcout (snd (main stub_host other_junk (unknown_app @ newline)))"
  by (simp add: run_unknown_app run_unknown_app_other wide_def widen_def)

text \<open>
  C5, as amended. For every container name for which the host's derivation stores a SID
  and its conversion of that SID stores a string, two runs on the same name (whatever
  else the two inputs hold, and whatever the uninitialised locals hold at entry) have
  the same outcome, the same output and the same events.
\<close>

theorem accepted_name_deterministic:
  assumes "main h g1 inp1 = (out1, s1)" and "main h g2 inp2 = (out2, s2)"
    and "containerName s1 = containerName s2"
    and "DeriveAppContainerSidFromAppContainerName h (containerName s1) = Some (hr, Some p)"
    and "ConvertSidToStringSidA h p = Some (b, Some q)"
  shows "out1 = out2 \<and> wcout s1 = wcout s2 \<and> trace s1 = trace s2"
proof -
  have "(out1, wcout s1, trace s1) = (out2, wcout s2, trace s2)"
    using accepted_run [OF assms(1) assms(4) assms(5)]
      accepted_run [OF assms(2) assms(4) [unfolded assms(3)] assms(5)]
    by (simp only: assms(3))
  then show ?thesis by simp
qed

text \<open>The stub host on its known name, from the two contents of the stack.\<close>

theorem accepted_name_deterministic_witness:
  "containerName (snd (main stub_host stack_junk (contoso @ newline))) =
     containerName (snd (main stub_host other_junk (contoso @ newline))) \<and>
   DeriveAppContainerSidFromAppContainerName stub_host contoso = Some (S_OK, Some 4096) \<and>
   ConvertSidToStringSidA stub_host 4096 = Some (TRUE, Some 8192) \<and>
   fst (main stub_host stack_junk (contoso @ newline)) =
     fst (main stub_host other_junk (contoso @ newline)) \<and>
   wcout (snd (main stub_host stack_junk (contoso @ newline))) =
     wcout (snd (main stub_host other_junk (contoso @ newline)))"
  using accepted_name_deterministic [of stub_host stack_junk "contoso @ newline" "Exited 0"
      "snd (main stub_host stack_junk (contoso @ newline))" other_junk "contoso @ newline"
      "Exited 0" "snd (main stub_host other_junk (contoso @ newline))" S_OK 4096 TRUE 8192]
  by (simp add: run_contoso run_contoso_other stub_host_replies)

subsection \<open>C6: the empty name\<close>

text \<open>
  C6 states that for the empty string as input name the operation fails with
  \<open>InvalidName\<close> and returns no text. The name is empty when the input holds no word.
  The stub host rejects the empty name with \<open>E_INVALIDARG\<close>; the program prints a text
  all the same and exits with 0.
\<close>

theorem empty_name_counterexample:
  "DeriveAppContainerSidFromAppContainerName stub_host [] = Some (E_INVALIDARG, None) \<and>
   \<not> SUCCEEDED E_INVALIDARG \<and>
   containerName (snd (main stub_host stack_junk [])) = [] \<and>
   fst (main stub_host stack_junk []) = Exited 0 \<and>
   wcout (snd (main stub_host stack_junk [])) = prompt @ label @ wide ''junk'' @ newline"
  by (simp add: run_nothing stub_host_replies status_facts)

text \<open>
  C6, as amended. For an input that holds no word (it is empty or all white space), the
  container name is the empty string and the program passes it to the derivation call
  as it is. It has no \<open>InvalidName\<close> outcome: when the call returns, with any status,
  the program goes on to the conversion call, on the value that \<open>sid\<close> had at entry
  when the host stored none; it never exits with a non-zero status, and a run that
  completes has printed the label and the string at \<open>stringSid\<close>.
\<close>

theorem empty_name_passed_on:
  assumes "main h g inp = (out, s)" and "\<forall>c\<in>set inp. iswspace c"
  shows "containerName s = [] \<and>
    prefix [WcoutWrite prompt, WcinRead [], DeriveCall []] (trace s) \<and>
    (DeriveAppContainerSidFromAppContainerName h [] \<noteq> None \<longrightarrow>
       ConvertCall (sid s) \<in> set (trace s)) \<and>
    (DeriveAppContainerSidFromAppContainerName h [] = Some (hr, None) \<longrightarrow> sid s = sid_init g) \<and>
    (out = Exited 0 \<or> out = Crashed) \<and>
    (out = Exited 0 \<longrightarrow>
       (\<exists>t. c_str h (stringSid s) = Some t \<and> wcout s = prompt @ label @ wide t @ newline))"
proof -
  have "wistream_extract [] inp = ([], [])"
    using assms(2) by (simp add: wistream_extract_def all_space)
  then show ?thesis
    using assms(1) by (auto simp: main_defs split: option.splits prod.splits)
qed

text \<open>The stub host on an input of white space only.\<close>

theorem empty_name_passed_on_witness:
  "iswspace (widen CHR '' '') \<and> iswspace (widen (CHR 0x0A)) \<and>
   DeriveAppContainerSidFromAppContainerName stub_host [] = Some (E_INVALIDARG, None) \<and>
   containerName (snd (main stub_host stack_junk (wide '' '' @ newline))) = [] \<and>
   sid (snd (main stub_host stack_junk (wide '' '' @ newline))) = sid_init stack_junk \<and>
   ConvertCall (sid_init stack_junk) \<in>
     set (trace (snd (main stub_host stack_junk (wide '' '' @ newline))))"
proof -
  have sp: "\<forall>c\<in>set (wide '' '' @ newline). iswspace c"
    by (simp add: wide_def widen_def newline_def iswspace_def)
  have "iswspace (widen CHR '' '') \<and> iswspace (widen (CHR 0x0A))"
    by (simp add: widen_def iswspace_def)
  then show ?thesis
    using sp empty_name_passed_on [of stub_host stack_junk "wide '' '' @ newline"
      "fst (main stub_host stack_junk (wide '' '' @ newline))"
      "snd (main stub_host stack_junk (wide '' '' @ newline))" E_INVALIDARG]
    by (auto simp: stub_host_replies)
qed

subsection \<open>C7: the prompt and the read\<close>

text \<open>
  C7 states that the program prompts and then reads one full line as the container
  name, interior white space included. \<open>wcin >> containerName\<close> reads a word: on the
  line \<open>my app\<close> the name is \<open>my\<close>, and that is what the derivation call gets.
\<close>

theorem whole_line_counterexample:
  "containerName (snd (main stub_host stack_junk (wide ''my app'' @ newline))) = wide ''my'' \<and>
   wide ''my'' \<noteq> wide ''my app'' \<and>
   wcin (snd (main stub_host stack_junk (wide ''my app'' @ newline))) = wide '' app'' @ newline \<and>
   DeriveCall (wide ''my'') \<in>
     set (trace (snd (main stub_host stack_junk (wide ''my app'' @ newline))))"
  using my_facts by (simp add: run_my_app)

text \<open>
  C7, as amended. For every input, the program first writes the prompt and then reads
  one word from standard input as the container name: it skips leading white space,
  line ends included, and takes the characters up to the next white space or the end of
  the input. The name holds no white space; what precedes it in the input is white
  space, and what follows it is empty or begins with white space and stays unread. A
  line of one or more characters without white space is read whole.
\<close>

theorem prompt_then_word:
  assumes "main h g inp = (out, s)"
  shows "prefix [WcoutWrite prompt, WcinRead (containerName s)] (trace s) \<and>
    containerName s = takeWhile (Not \<circ> iswspace) (dropWhile iswspace inp) \<and>
    wcin s = dropWhile (Not \<circ> iswspace) (dropWhile iswspace inp) \<and>
    (\<forall>c\<in>set (containerName s). \<not> iswspace c) \<and>
    (\<exists>pre. inp = pre @ containerName s @ wcin s \<and> (\<forall>c\<in>set pre. iswspace c) \<and>
       (wcin s = [] \<or> iswspace (hd (wcin s)))) \<and>
    (\<forall>w rest. inp = w @ newline @ rest \<and> w \<noteq> [] \<and> (\<forall>c\<in>set w. \<not> iswspace c) \<longrightarrow>
       containerName s = w)"
proof -
  have run: "containerName s = fst (wistream_extract [] inp) \<and>
      wcin s = snd (wistream_extract [] inp) \<and>
      prefix [WcoutWrite prompt, WcinRead (containerName s)] (trace s)"
    using assms by (auto simp: main_defs split: option.splits prod.splits)
  have name: "containerName s = takeWhile (Not \<circ> iswspace) (dropWhile iswspace inp)"
    and rest: "wcin s = dropWhile (Not \<circ> iswspace) (dropWhile iswspace inp)"
    using run by (simp_all add: extract_name extract_rest)
  have nospace: "\<forall>c\<in>set (containerName s). \<not> iswspace c"
    using run word_no_space [of inp] by simp
  have "inp = takeWhile iswspace inp @ containerName s @ wcin s"
    unfolding name rest by simp
  moreover have "\<forall>c\<in>set (takeWhile iswspace inp). iswspace c"
    by (auto dest: set_takeWhileD)
  moreover have "wcin s = [] \<or> iswspace (hd (wcin s))"
    unfolding rest using hd_dropWhile [of "Not \<circ> iswspace" "dropWhile iswspace inp"] by auto
  ultimately have parts: "\<exists>pre. inp = pre @ containerName s @ wcin s \<and>
      (\<forall>c\<in>set pre. iswspace c) \<and> (wcin s = [] \<or> iswspace (hd (wcin s)))"
    by blast
  have line: "containerName s = w"
    if "inp = w @ newline @ rest" "w \<noteq> []" "\<forall>c\<in>set w. \<not> iswspace c" for w rest
  proof -
    have "newline @ rest = [] \<or> iswspace (hd (newline @ rest))"
      by (simp add: newline_def wide_def widen_def iswspace_def)
    then have "wistream_extract [] ([] @ w @ newline @ rest) = (w, newline @ rest)"
      using that(2,3) by (intro extract_word) simp_all
    then show ?thesis using run that(1) by simp
  qed
  show ?thesis
    using run name rest nospace parts line by blast
qed

text \<open>The stub host's known name on a line of its own is read whole.\<close>

theorem prompt_then_word_witness:
  "contoso \<noteq> [] \<and>
   containerName (snd (main stub_host stack_junk (contoso @ newline @ []))) = contoso \<and>
   prefix [WcoutWrite prompt, WcinRead contoso]
     (trace (snd (main stub_host stack_junk (contoso @ newline @ []))))"
  using prompt_then_word [of stub_host stack_junk "contoso @ newline @ []" "Exited 0"
      "snd (main stub_host stack_junk (contoso @ newline @ []))"] contoso_facts
  by (simp add: run_contoso)

subsection \<open>C8: what a run leaves behind\<close>

text \<open>
  C8 states that the only side effect of a run is the transient acquisition and release
  of the SID, and that nothing is retained. On the stub host's known name the run
  completes, the SID has been given back, and the buffer that \<open>ConvertSidToStringSidA\<close>
  stored at 8192 is still held: \<open>FreeSid\<close> is called for the one resource and
  \<open>LocalFree\<close> is not called for the other.
\<close>

theorem string_buffer_outstanding_at_exit:
  "fst (main stub_host stack_junk (contoso @ newline)) = Exited 0 \<and>
   outstanding stub_host (trace (snd (main stub_host stack_junk (contoso @ newline)))) =
     [StringBuffer 8192]"
  by (simp add: run_contoso outstanding_def stub_host_replies status_facts)

end
